theory Spec2Isabelle
  imports Main "HOL-Library.Word"
begin

section \<open>JavaScript strings and values\<close>

text \<open>
  A JavaScript string is a sequence of UTF-16 code units. The helper \<open>js\<close> writes an
  ASCII literal of the source as such a sequence.
\<close>

type_synonym js_string = "16 word list"

definition js :: "string \<Rightarrow> js_string" where
  "js cs = map of_char cs"

text \<open>
  \<open>String.prototype.trim\<close> removes the white space and line terminators of ECMAScript
  from both ends: TAB, LF, VT, FF, CR, SPACE, NBSP, the other space separators of
  Unicode, LS, PS and the byte order mark.
\<close>

definition is_ws :: "16 word \<Rightarrow> bool" where
  "is_ws c =
     (c \<in> {0x0009, 0x000A, 0x000B, 0x000C, 0x000D, 0x0020, 0x00A0, 0x1680,
            0x2028, 0x2029, 0x202F, 0x205F, 0x3000, 0xFEFF}
      \<or> (0x2000 \<le> c \<and> c \<le> 0x200A))"

definition trim :: "js_string \<Rightarrow> js_string" where
  "trim s = rev (dropWhile is_ws (rev (dropWhile is_ws s)))"

text \<open>
  The values the program handles: what \<open>JSON.parse\<close> builds (numbers restricted to
  integers), and \<open>undefined\<close>, which reading a missing property gives. An object lists
  its own properties, each name once.
\<close>

datatype js_value =
    JUndefined
  | JNull
  | JBool bool
  | JNum int
  | JStr js_string
  | JArr "js_value list"
  | JObj "(js_string \<times> js_value) list"

datatype js_error =
    NetworkError  \<comment> \<open>the rejection of \<open>fetch\<close> when the request fails in transport\<close>
  | SyntaxError   \<comment> \<open>the rejection of \<open>response.json()\<close> on a body that is not JSON\<close>
  | TypeError     \<comment> \<open>reading a property of \<open>null\<close> or \<open>undefined\<close>, calling a non-function\<close>

text \<open>Truthiness, as the conditional operator tests it.\<close>

fun truthy :: "js_value \<Rightarrow> bool" where
  "truthy JUndefined = False"
| "truthy JNull = False"
| "truthy (JBool b) = b"
| "truthy (JNum n) = (n \<noteq> 0)"
| "truthy (JStr s) = (s \<noteq> [])"
| "truthy (JArr _) = True"
| "truthy (JObj _) = True"

text \<open>
  \<open>v.k\<close> for a property name \<open>k\<close> that no built-in prototype defines
  (\<open>id\<close>, \<open>title\<close> and \<open>completed\<close> are such names).
\<close>

fun get_prop :: "js_value \<Rightarrow> js_string \<Rightarrow> js_error + js_value" where
  "get_prop JUndefined k = Inl TypeError"
| "get_prop JNull k = Inl TypeError"
| "get_prop (JObj kvs) k = Inr (case map_of kvs k of None \<Rightarrow> JUndefined | Some v \<Rightarrow> v)"
| "get_prop _ k = Inr JUndefined"

section \<open>The API client (api/tasks.js)\<close>

datatype http_method = GET | POST | PUT | DELETE

text \<open>
  \<open>TasksUrl b\<close> is the template literal \<open>`${b}/tasks`\<close> and \<open>TaskUrl b i\<close> is
  \<open>`${b}/tasks/${i}`\<close>.
\<close>

datatype url = TasksUrl string | TaskUrl string js_value

text \<open>
  The arguments of one call of \<open>fetch\<close>. The body is JSON text, held as the value that
  \<open>JSON.stringify\<close> was given.
\<close>

record request =
  req_url :: url
  req_method :: http_method
  req_headers :: "(string \<times> string) list"
  req_body :: "js_value option"

text \<open>
  An HTTP response: its status code and its body. The body text is held as what parsing
  it as JSON gives: \<open>Some v\<close> for the JSON text of \<open>v\<close>, \<open>None\<close> for text that is not
  JSON.
\<close>

record response =
  status :: nat
  body_json :: "js_value option"

text \<open>
  How a \<open>fetch\<close> settles: rejected in transport, or resolved to a response. Reading the
  body of the response, which \<open>response.json()\<close> awaits, is taken as part of the same
  event, since nothing of the program runs in between.
\<close>

datatype fetched = Failed | Responded response

text \<open>\<open>response.json()\<close>\<close>

definition json :: "response \<Rightarrow> js_error + js_value" where
  "json response = (case body_json response of None \<Rightarrow> Inl SyntaxError | Some v \<Rightarrow> Inr v)"

text \<open>
  Each function of the client awaits one \<open>fetch\<close>. It is modelled as the request it
  sends and what its promise settles to, given how the \<open>fetch\<close> settled: \<open>Inl\<close> a
  rejection, \<open>Inr\<close> the value returned.
\<close>

record 'a call =
  sends :: request
  returns :: "fetched \<Rightarrow> js_error + 'a"

definition API_URL :: string where
  "API_URL = ''http://localhost:3001/api''"

definition getTasks :: "js_value call" where
  "getTasks =
     \<lparr>sends = \<lparr>req_url = TasksUrl API_URL, req_method = GET, req_headers = [], req_body = None\<rparr>,
      returns = (\<lambda>r. case r of Failed \<Rightarrow> Inl NetworkError | Responded response \<Rightarrow> json response)\<rparr>"

definition createTask :: "js_string \<Rightarrow> js_value call" where
  "createTask title =
     \<lparr>sends = \<lparr>req_url = TasksUrl API_URL, req_method = POST,
               req_headers = [(''Content-Type'', ''application/json'')],
               req_body = Some (JObj [(js ''title'', JStr title)])\<rparr>,
      returns = (\<lambda>r. case r of Failed \<Rightarrow> Inl NetworkError | Responded response \<Rightarrow> json response)\<rparr>"

definition toggleTask :: "js_value \<Rightarrow> js_value call" where
  "toggleTask id' =
     \<lparr>sends = \<lparr>req_url = TaskUrl API_URL id', req_method = PUT, req_headers = [], req_body = None\<rparr>,
      returns = (\<lambda>r. case r of Failed \<Rightarrow> Inl NetworkError | Responded response \<Rightarrow> json response)\<rparr>"

definition deleteTask :: "js_value \<Rightarrow> unit call" where
  "deleteTask id' =
     \<lparr>sends = \<lparr>req_url = TaskUrl API_URL id', req_method = DELETE, req_headers = [], req_body = None\<rparr>,
      returns = (\<lambda>r. case r of Failed \<Rightarrow> Inl NetworkError | Responded response \<Rightarrow> Inr ())\<rparr>"

section \<open>The row view (TaskItem)\<close>

text \<open>
  What \<open>TaskItem\<close> renders, as the props that depend on its arguments: those of the
  checkbox, of the title span and of the delete button. A handler of the row is held as
  what invoking it gives; it reads \<open>task.id\<close> then, which cannot throw once the row
  has rendered.
\<close>

record 'a row =
  checkbox_checked :: js_value
  checkbox_onChange :: 'a
  span_className :: string
  span_children :: js_value
  button_onClick :: 'a

definition TaskItem :: "js_value \<Rightarrow> (js_value \<Rightarrow> 'a) \<Rightarrow> (js_value \<Rightarrow> 'a) \<Rightarrow> js_error + 'a row" where
  "TaskItem task onToggle onDelete =
     (case get_prop task (js ''completed'') of
        Inl e \<Rightarrow> Inl e
      | Inr completed \<Rightarrow>
          (case get_prop task (js ''id'') of
             Inl e \<Rightarrow> Inl e
           | Inr task_id \<Rightarrow>
               (case get_prop task (js ''title'') of
                  Inl e \<Rightarrow> Inl e
                | Inr title \<Rightarrow>
                    Inr \<lparr>checkbox_checked = completed,
                         checkbox_onChange = onToggle task_id,
                         span_className =
                           (if truthy completed then ''line-through text-gray-500'' else ''''),
                         span_children = title,
                         button_onClick = onDelete task_id\<rparr>)))"

section \<open>The list controller (App)\<close>

text \<open>
  An asynchronous function suspended at its \<open>await\<close>: \<open>fetchTasks\<close> at
  \<open>await getTasks()\<close>, \<open>handleAddTask\<close> at \<open>await createTask(newTask)\<close>,
  \<open>handleToggleTask\<close> at \<open>await toggleTask(id)\<close>, \<open>handleDeleteTask\<close> at
  \<open>await deleteTask(id)\<close>.
\<close>

datatype suspended =
    Await_getTasks
  | Await_createTask js_string
  | Await_toggleTask js_value
  | Await_deleteTask js_value

text \<open>
  The component's two state variables, and around them what the event loop holds: every
  \<open>fetch\<close> issued so far, in order; the functions suspended on a \<open>fetch\<close>, under the
  position of that \<open>fetch\<close> in \<open>sent\<close>; the promise rejections that nothing handled.
\<close>

record app =
  tasks :: js_value
  newTask :: js_string
  sent :: "request list"
  waiting :: "nat \<rightharpoonup> suspended"
  unhandled :: "js_error list"

definition init :: app where
  "init = \<lparr>tasks = JArr [], newTask = [], sent = [], waiting = Map.empty, unhandled = []\<rparr>"

text \<open>Calling a function of the client and awaiting it: the request goes out, the caller is suspended.\<close>

definition await :: "'a call \<Rightarrow> suspended \<Rightarrow> app \<Rightarrow> app" where
  "await c k s = s\<lparr>sent := sent s @ [sends c], waiting := (waiting s)(length (sent s) \<mapsto> k)\<rparr>"

definition fetchTasks :: "app \<Rightarrow> app" where
  "fetchTasks s = await getTasks Await_getTasks s"

definition handleAddTask :: "app \<Rightarrow> app" where
  "handleAddTask s =
     (if trim (newTask s) = [] then s
      else await (createTask (newTask s)) (Await_createTask (newTask s)) s)"

definition handleToggleTask :: "js_value \<Rightarrow> app \<Rightarrow> app" where
  "handleToggleTask id' s = await (toggleTask id') (Await_toggleTask id') s"

definition handleDeleteTask :: "js_value \<Rightarrow> app \<Rightarrow> app" where
  "handleDeleteTask id' s = await (deleteTask id') (Await_deleteTask id') s"

text \<open>
  The rest of a suspended function, run when its \<open>fetch\<close> settles. No caller awaits or
  catches the promise of \<open>fetchTasks\<close> or of a handler, so a rejection ends the function
  there and is left unhandled.
\<close>

fun resume :: "suspended \<Rightarrow> fetched \<Rightarrow> app \<Rightarrow> app" where
  "resume Await_getTasks r s =
     (case returns getTasks r of
        Inl e \<Rightarrow> s\<lparr>unhandled := unhandled s @ [e]\<rparr>
      | Inr data \<Rightarrow> s\<lparr>tasks := data\<rparr>)"
| "resume (Await_createTask title) r s =
     (case returns (createTask title) r of
        Inl e \<Rightarrow> s\<lparr>unhandled := unhandled s @ [e]\<rparr>
      | Inr _ \<Rightarrow> fetchTasks (s\<lparr>newTask := []\<rparr>))"
| "resume (Await_toggleTask id') r s =
     (case returns (toggleTask id') r of
        Inl e \<Rightarrow> s\<lparr>unhandled := unhandled s @ [e]\<rparr>
      | Inr _ \<Rightarrow> fetchTasks s)"
| "resume (Await_deleteTask id') r s =
     (case returns (deleteTask id') r of
        Inl e \<Rightarrow> s\<lparr>unhandled := unhandled s @ [e]\<rparr>
      | Inr _ \<Rightarrow> fetchTasks s)"

text \<open>
  What happens to the component: it mounts (the effect runs), the input changes, the form
  is submitted, a row's checkbox or delete button is used, the \<open>n\<close>-th \<open>fetch\<close> settles.
\<close>

datatype event =
    Mount
  | Change js_string
  | Submit
  | Toggle js_value
  | Delete js_value
  | Settle nat fetched

fun step :: "event \<Rightarrow> app \<Rightarrow> app" where
  "step Mount s = fetchTasks s"
| "step (Change v) s = s\<lparr>newTask := v\<rparr>"
| "step Submit s = handleAddTask s"
| "step (Toggle id') s = handleToggleTask id' s"
| "step (Delete id') s = handleDeleteTask id' s"
| "step (Settle n r) s =
     (case waiting s n of
        None \<Rightarrow> s
      | Some k \<Rightarrow> resume k r (s\<lparr>waiting := (waiting s)(n := None)\<rparr>))"

fun run :: "event list \<Rightarrow> app \<Rightarrow> app" where
  "run [] s = s"
| "run (e # es) s = run es (step e s)"

text \<open>
  What \<open>App\<close> renders from its state: the value of the input and one \<open>TaskItem\<close> for
  each element of \<open>tasks\<close>, in order, with the two handlers. \<open>tasks.map\<close> exists on
  arrays only.
\<close>

fun all_rows :: "(js_error + 'a) list \<Rightarrow> js_error + 'a list" where
  "all_rows [] = Inr []"
| "all_rows (x # xs) =
     (case x of
        Inl e \<Rightarrow> Inl e
      | Inr y \<Rightarrow> (case all_rows xs of Inl e \<Rightarrow> Inl e | Inr ys \<Rightarrow> Inr (y # ys)))"

record view =
  input_value :: js_string
  items :: "event row list"

definition App :: "app \<Rightarrow> js_error + view" where
  "App s =
     (case tasks s of
        JArr ts \<Rightarrow>
          (case all_rows (map (\<lambda>task. TaskItem task Toggle Delete) ts) of
             Inl e \<Rightarrow> Inl e
           | Inr rows \<Rightarrow> Inr \<lparr>input_value = newTask s, items = rows\<rparr>)
      | _ \<Rightarrow> Inl TypeError)"

section \<open>Properties\<close>

text \<open>
  An awaited call of the client resolved, given how its \<open>fetch\<close> settled: its promise
  was not rejected.
\<close>

fun resolved :: "suspended \<Rightarrow> fetched \<Rightarrow> bool" where
  "resolved Await_getTasks r = (\<not> isl (returns getTasks r))"
| "resolved (Await_createTask title) r = (\<not> isl (returns (createTask title) r))"
| "resolved (Await_toggleTask id') r = (\<not> isl (returns (toggleTask id') r))"
| "resolved (Await_deleteTask id') r = (\<not> isl (returns (deleteTask id') r))"

subsection \<open>Auxiliary facts\<close>

lemma returns_simps:
  "returns getTasks r = (case r of Failed \<Rightarrow> Inl NetworkError | Responded response \<Rightarrow> json response)"
  "returns (createTask t) r = (case r of Failed \<Rightarrow> Inl NetworkError | Responded response \<Rightarrow> json response)"
  "returns (toggleTask i) r = (case r of Failed \<Rightarrow> Inl NetworkError | Responded response \<Rightarrow> json response)"
  "returns (deleteTask i) r = (case r of Failed \<Rightarrow> Inl NetworkError | Responded response \<Rightarrow> Inr ())"
  by (simp_all add: getTasks_def createTask_def toggleTask_def deleteTask_def)

lemma await_fields:
  "tasks (await c k s) = tasks s"
  "newTask (await c k s) = newTask s"
  "unhandled (await c k s) = unhandled s"
  "sent (await c k s) = sent s @ [sends c]"
  "waiting (await c k s) = (waiting s)(length (sent s) \<mapsto> k)"
  by (simp_all add: await_def)

lemma resume_tasks:
  "tasks (resume k r s) =
     (case k of
        Await_getTasks \<Rightarrow> (case returns getTasks r of Inl e \<Rightarrow> tasks s | Inr data \<Rightarrow> data)
      | _ \<Rightarrow> tasks s)"
  by (cases k) (simp_all add: fetchTasks_def await_fields split: sum.splits)

lemma resume_newTask:
  "newTask (resume k r s) =
     (case k of
        Await_createTask t \<Rightarrow> (case returns (createTask t) r of Inl e \<Rightarrow> newTask s | Inr v \<Rightarrow> [])
      | _ \<Rightarrow> newTask s)"
  by (cases k) (simp_all add: fetchTasks_def await_fields split: sum.splits)

lemma resume_rejected:
  "\<not> resolved k r \<Longrightarrow> \<exists>e. resume k r s = s\<lparr>unhandled := unhandled s @ [e]\<rparr>"
  by (cases k) (auto split: sum.splits)

lemma resume_mutation_resolved:
  "k \<noteq> Await_getTasks \<Longrightarrow> resolved k r \<Longrightarrow>
     resume k r s =
       fetchTasks (s\<lparr>newTask := (case k of Await_createTask t \<Rightarrow> [] | _ \<Rightarrow> newTask s)\<rparr>)"
  by (cases k) (auto split: sum.splits)

lemma all_rows_Inr: "all_rows xs = Inr ys \<Longrightarrow> map Inr ys = xs"
  by (induction xs arbitrary: ys) (auto split: sum.splits)

subsection \<open>Mutations and the refresh\<close>

text \<open>
  Claim C1, as stated, fails: the refresh follows a mutating call only when that call
  resolves. Here the \<open>PUT\<close> of a toggle is answered 204 with an empty body,
  \<open>toggleTask\<close> rejects on parsing it, and the handler ends before \<open>fetchTasks()\<close>: the
  toggle request is the only one ever sent.
\<close>

theorem refresh_skipped_counterexample:
  "sent (run [Toggle (JNum 1), Settle 0 (Responded \<lparr>status = 204, body_json = None\<rparr>)] init)
     = [sends (toggleTask (JNum 1))]
   \<and> waiting (run [Toggle (JNum 1), Settle 0 (Responded \<lparr>status = 204, body_json = None\<rparr>)] init) 0
     = None
   \<and> waiting (run [Toggle (JNum 1), Settle 0 (Responded \<lparr>status = 204, body_json = None\<rparr>)] init) 1
     = None
   \<and> unhandled (run [Toggle (JNum 1), Settle 0 (Responded \<lparr>status = 204, body_json = None\<rparr>)] init)
     = [SyntaxError]"
  by (simp add: init_def handleToggleTask_def await_def returns_simps json_def)

text \<open>
  Claim C1, amended. When the call awaited by add, toggle or delete resolves, the
  controller sends the refresh request and suspends \<open>fetchTasks\<close> on it, leaving \<open>tasks\<close>
  as it was (no local patch); when the call rejects, nothing is sent and \<open>tasks\<close> stays.
  When a refresh resolves with the value \<open>data\<close>, \<open>tasks\<close> becomes \<open>data\<close> itself. The
  rendered rows are the \<open>TaskItem\<close>s of the elements of \<open>tasks\<close>, one for each, in the
  same order.
\<close>

theorem mutation_then_refresh:
  "(waiting s n = Some k \<and> k \<noteq> Await_getTasks \<and> resolved k r \<longrightarrow>
      sent (step (Settle n r) s) = sent s @ [sends getTasks]
      \<and> waiting (step (Settle n r) s) = (waiting s)(n := None, length (sent s) \<mapsto> Await_getTasks)
      \<and> tasks (step (Settle n r) s) = tasks s)
   \<and> (waiting s n = Some k \<and> \<not> resolved k r \<longrightarrow>
      sent (step (Settle n r) s) = sent s
      \<and> waiting (step (Settle n r) s) = (waiting s)(n := None)
      \<and> tasks (step (Settle n r) s) = tasks s)
   \<and> (waiting s n = Some Await_getTasks \<and> returns getTasks r = Inr data \<longrightarrow>
      tasks (step (Settle n r) s) = data)
   \<and> (tasks s = JArr ts \<and> App s = Inr v \<longrightarrow>
      map Inr (items v) = map (\<lambda>task. TaskItem task Toggle Delete) ts)"
proof (intro conjI impI)
  assume h: "waiting s n = Some k \<and> k \<noteq> Await_getTasks \<and> resolved k r"
  then have eq: "step (Settle n r) s =
      fetchTasks (s\<lparr>waiting := (waiting s)(n := None),
                    newTask := (case k of Await_createTask t \<Rightarrow> [] | _ \<Rightarrow> newTask s)\<rparr>)"
    by (cases k) (simp_all add: resume_mutation_resolved del: resume.simps)
  show "sent (step (Settle n r) s) = sent s @ [sends getTasks]"
    unfolding eq by (simp add: fetchTasks_def await_fields)
  show "waiting (step (Settle n r) s) = (waiting s)(n := None, length (sent s) \<mapsto> Await_getTasks)"
    unfolding eq by (simp add: fetchTasks_def await_fields)
  show "tasks (step (Settle n r) s) = tasks s"
    unfolding eq by (simp add: fetchTasks_def await_fields)
next
  assume h: "waiting s n = Some k \<and> \<not> resolved k r"
  then obtain e where eq: "step (Settle n r) s =
      s\<lparr>waiting := (waiting s)(n := None), unhandled := unhandled s @ [e]\<rparr>"
    using resume_rejected [of k r "s\<lparr>waiting := (waiting s)(n := None)\<rparr>"] by auto
  show "sent (step (Settle n r) s) = sent s" unfolding eq by simp
  show "waiting (step (Settle n r) s) = (waiting s)(n := None)" unfolding eq by simp
  show "tasks (step (Settle n r) s) = tasks s" unfolding eq by simp
next
  assume "waiting s n = Some Await_getTasks \<and> returns getTasks r = Inr data"
  then show "tasks (step (Settle n r) s) = data" by simp
next
  assume "tasks s = JArr ts \<and> App s = Inr v"
  then show "map Inr (items v) = map (\<lambda>task. TaskItem task Toggle Delete) ts"
    by (auto simp: App_def all_rows_Inr split: sum.splits)
qed

theorem mutation_then_refresh_witness:
  "waiting (step (Toggle (JNum 1)) init) 0 = Some (Await_toggleTask (JNum 1))
   \<and> resolved (Await_toggleTask (JNum 1)) (Responded \<lparr>status = 200, body_json = Some JNull\<rparr>)
   \<and> sent (run [Toggle (JNum 1), Settle 0 (Responded \<lparr>status = 200, body_json = Some JNull\<rparr>)] init)
       = [sends (toggleTask (JNum 1)), sends getTasks]
   \<and> \<not> resolved (Await_toggleTask (JNum 1)) Failed
   \<and> sent (run [Toggle (JNum 1), Settle 0 Failed] init) = [sends (toggleTask (JNum 1))]
   \<and> waiting (step Mount init) 0 = Some Await_getTasks
   \<and> tasks (run [Mount, Settle 0 (Responded \<lparr>status = 200, body_json = Some (JArr [JNum 2, JNum 1])\<rparr>)] init)
       = JArr [JNum 2, JNum 1]
   \<and> App (init\<lparr>tasks := JArr [JObj [], JNum 5]\<rparr>)
       = Inr \<lparr>input_value = [],
              items = [\<lparr>checkbox_checked = JUndefined, checkbox_onChange = Toggle JUndefined,
                        span_className = [], span_children = JUndefined,
                        button_onClick = Delete JUndefined\<rparr>,
                       \<lparr>checkbox_checked = JUndefined, checkbox_onChange = Toggle JUndefined,
                        span_className = [], span_children = JUndefined,
                        button_onClick = Delete JUndefined\<rparr>]\<rparr>"
  using
    mutation_then_refresh [of "step (Toggle (JNum 1)) init" 0 "Await_toggleTask (JNum 1)"
      "Responded \<lparr>status = 200, body_json = Some JNull\<rparr>"]
    mutation_then_refresh [of "step (Toggle (JNum 1)) init" 0 "Await_toggleTask (JNum 1)" Failed]
    mutation_then_refresh [of "step Mount init" 0 _
      "Responded \<lparr>status = 200, body_json = Some (JArr [JNum 2, JNum 1])\<rparr>" "JArr [JNum 2, JNum 1]"]
    mutation_then_refresh [of "init\<lparr>tasks := JArr [JObj [], JNum 5]\<rparr>" _ _ _ _ "[JObj [], JNum 5]"]
  by (simp add: init_def handleToggleTask_def fetchTasks_def await_def returns_simps json_def
        App_def TaskItem_def js_def)

subsection \<open>Submitting a blank draft\<close>

text \<open>
  Claim C2. When the draft trims to the empty string, submitting changes nothing at all:
  no request is sent and nothing is suspended (\<open>createTask\<close> is not called), what \<open>App\<close>
  renders is the same, and no rejection is recorded.
\<close>

theorem blank_submit_is_noop:
  assumes "trim (newTask s) = []"
  shows "step Submit s = s \<and> sent (step Submit s) = sent s \<and> waiting (step Submit s) = waiting s
    \<and> App (step Submit s) = App s \<and> unhandled (step Submit s) = unhandled s"
  using assms by (simp add: handleAddTask_def)

theorem blank_submit_is_noop_witness:
  "trim (newTask (step (Change [0x20, 0x09, 0x3000]) init)) = []
   \<and> step Submit (step (Change [0x20, 0x09, 0x3000]) init) = step (Change [0x20, 0x09, 0x3000]) init
   \<and> sent (step Submit (step (Change [0x20, 0x09, 0x3000]) init)) = []"
  using blank_submit_is_noop [of "step (Change [0x20, 0x09, 0x3000]) init"]
  by (simp add: trim_def is_ws_def init_def)

subsection \<open>Status codes\<close>

text \<open>
  Claim C3. Two responses with the same body give the same result in \<open>getTasks\<close>,
  \<open>createTask\<close> and \<open>toggleTask\<close>, whatever their status codes, and the controller
  reaches the same state on either. A response whose body is JSON text resolves the call
  with the parsed value, whatever its status code.
\<close>

theorem status_never_inspected:
  "(body_json r1 = body_json r2 \<longrightarrow>
      returns getTasks (Responded r1) = returns getTasks (Responded r2)
      \<and> returns (createTask title) (Responded r1) = returns (createTask title) (Responded r2)
      \<and> returns (toggleTask id') (Responded r1) = returns (toggleTask id') (Responded r2)
      \<and> step (Settle n (Responded r1)) s = step (Settle n (Responded r2)) s)
   \<and> (body_json r1 = Some v \<longrightarrow>
      returns getTasks (Responded r1) = Inr v
      \<and> returns (createTask title) (Responded r1) = Inr v
      \<and> returns (toggleTask id') (Responded r1) = Inr v)"
proof (intro conjI impI)
  assume b: "body_json r1 = body_json r2"
  then have j: "json r1 = json r2" by (simp add: json_def)
  then show "returns getTasks (Responded r1) = returns getTasks (Responded r2)"
    and "returns (createTask title) (Responded r1) = returns (createTask title) (Responded r2)"
    and "returns (toggleTask id') (Responded r1) = returns (toggleTask id') (Responded r2)"
    by (simp_all add: returns_simps)
  show "step (Settle n (Responded r1)) s = step (Settle n (Responded r2)) s"
  proof (cases "waiting s n")
    case None
    then show ?thesis by simp
  next
    case (Some k)
    then show ?thesis using j by (cases k) (simp_all add: returns_simps)
  qed
next
  assume "body_json r1 = Some v"
  then have "json r1 = Inr v" by (simp add: json_def)
  then show "returns getTasks (Responded r1) = Inr v"
    and "returns (createTask title) (Responded r1) = Inr v"
    and "returns (toggleTask id') (Responded r1) = Inr v"
    by (simp_all add: returns_simps)
qed

theorem status_never_inspected_witness:
  "body_json \<lparr>status = 500, body_json = Some (JObj [(js ''error'', JStr (js ''down''))])\<rparr>
     = body_json \<lparr>status = 200, body_json = Some (JObj [(js ''error'', JStr (js ''down''))])\<rparr>
   \<and> returns getTasks (Responded \<lparr>status = 500, body_json = Some (JObj [(js ''error'', JStr (js ''down''))])\<rparr>)
     = returns getTasks (Responded \<lparr>status = 200, body_json = Some (JObj [(js ''error'', JStr (js ''down''))])\<rparr>)
   \<and> returns (toggleTask (JNum 7)) (Responded \<lparr>status = 500, body_json = Some (JObj [(js ''error'', JStr (js ''down''))])\<rparr>)
     = Inr (JObj [(js ''error'', JStr (js ''down''))])
   \<and> tasks (step (Settle 0 (Responded \<lparr>status = 500, body_json = Some (JObj [(js ''error'', JStr (js ''down''))])\<rparr>))
        (step Mount init))
     = tasks (step (Settle 0 (Responded \<lparr>status = 200, body_json = Some (JObj [(js ''error'', JStr (js ''down''))])\<rparr>))
        (step Mount init))"
  using status_never_inspected
    [of "\<lparr>status = 500, body_json = Some (JObj [(js ''error'', JStr (js ''down''))])\<rparr>"
        "\<lparr>status = 200, body_json = Some (JObj [(js ''error'', JStr (js ''down''))])\<rparr>"
        "js ''x''" "JNum 7" 0 "step Mount init" "JObj [(js ''error'', JStr (js ''down''))]"]
  by (simp add: init_def fetchTasks_def await_def returns_simps json_def)

subsection \<open>Adding a task\<close>

text \<open>
  Claim C4, as stated, fails: the draft is cleared and the refresh triggered only when
  \<open>createTask\<close> resolves. Here the \<open>POST\<close> fails in transport: the draft stays as
  typed and no refresh is sent.
\<close>

theorem add_not_completed_counterexample:
  "newTask (run [Change (js ''a''), Submit, Settle 0 Failed] init) = js ''a''
   \<and> sent (run [Change (js ''a''), Submit, Settle 0 Failed] init) = [sends (createTask (js ''a''))]
   \<and> waiting (run [Change (js ''a''), Submit, Settle 0 Failed] init) 0 = None
   \<and> waiting (run [Change (js ''a''), Submit, Settle 0 Failed] init) 1 = None"
  by (simp add: init_def handleAddTask_def await_def returns_simps js_def trim_def is_ws_def)

text \<open>
  Claim C4, amended. Submitting a draft that does not trim to the empty string calls
  \<open>createTask\<close> with the draft and suspends the handler, the draft and \<open>tasks\<close> as they
  were. When that call resolves, with whatever value \<open>v\<close>, the draft becomes the empty
  string and the refresh request is sent; nothing else changes, so \<open>v\<close> is not used and
  \<open>tasks\<close> is not written. When the call rejects, the draft is kept, no refresh is sent
  and the rejection is left unhandled.
\<close>

theorem add_calls_clears_refreshes:
  "(trim (newTask s) \<noteq> [] \<longrightarrow>
      sent (step Submit s) = sent s @ [sends (createTask (newTask s))]
      \<and> waiting (step Submit s) = (waiting s)(length (sent s) \<mapsto> Await_createTask (newTask s))
      \<and> newTask (step Submit s) = newTask s
      \<and> tasks (step Submit s) = tasks s)
   \<and> (waiting s n = Some (Await_createTask title) \<and> returns (createTask title) r = Inr v \<longrightarrow>
      step (Settle n r) s =
        s\<lparr>newTask := [], sent := sent s @ [sends getTasks],
          waiting := (waiting s)(n := None, length (sent s) \<mapsto> Await_getTasks)\<rparr>)
   \<and> (waiting s n = Some (Await_createTask title) \<and> returns (createTask title) r = Inl e \<longrightarrow>
      step (Settle n r) s =
        s\<lparr>waiting := (waiting s)(n := None), unhandled := unhandled s @ [e]\<rparr>)"
  by (simp add: handleAddTask_def fetchTasks_def await_def)

theorem add_calls_clears_refreshes_witness:
  "trim (newTask (step (Change (js ''Write spec'')) init)) \<noteq> []
   \<and> sent (step Submit (step (Change (js ''Write spec'')) init)) = [sends (createTask (js ''Write spec''))]
   \<and> waiting (run [Change (js ''Write spec''), Submit] init) 0 = Some (Await_createTask (js ''Write spec''))
   \<and> returns (createTask (js ''Write spec'')) (Responded \<lparr>status = 201, body_json = Some JNull\<rparr>) = Inr JNull
   \<and> newTask (step (Settle 0 (Responded \<lparr>status = 201, body_json = Some JNull\<rparr>))
        (run [Change (js ''Write spec''), Submit] init)) = []
   \<and> sent (step (Settle 0 (Responded \<lparr>status = 201, body_json = Some JNull\<rparr>))
        (run [Change (js ''Write spec''), Submit] init))
       = [sends (createTask (js ''Write spec'')), sends getTasks]
   \<and> returns (createTask (js ''Write spec'')) Failed = Inl NetworkError
   \<and> newTask (step (Settle 0 Failed) (run [Change (js ''Write spec''), Submit] init)) = js ''Write spec''"
  using
    add_calls_clears_refreshes [of "step (Change (js ''Write spec'')) init" 0 "js ''Write spec''"
      "Responded \<lparr>status = 201, body_json = Some JNull\<rparr>" JNull]
    add_calls_clears_refreshes [of "run [Change (js ''Write spec''), Submit] init" 0 "js ''Write spec''"
      "Responded \<lparr>status = 201, body_json = Some JNull\<rparr>" JNull]
    add_calls_clears_refreshes [of "run [Change (js ''Write spec''), Submit] init" 0 "js ''Write spec''"
      Failed _ NetworkError]
  by (simp add: init_def handleAddTask_def await_def returns_simps json_def js_def trim_def is_ws_def)

subsection \<open>Failure of the refresh\<close>

text \<open>
  Claim C5. \<open>getTasks\<close> rejects exactly when its \<open>fetch\<close> fails in transport or the
  body of the response is not JSON. When \<open>fetchTasks\<close> is resumed with such a rejection,
  \<open>tasks\<close> is unchanged and the rejection is added to the unhandled ones; \<open>tasks\<close> is
  written when the call resolves, with the parsed value.
\<close>

theorem getTasks_fails_iff:
  "((\<exists>e. returns getTasks r = Inl e) \<longleftrightarrow>
      (r = Failed \<or> (\<exists>resp. r = Responded resp \<and> body_json resp = None)))
   \<and> (waiting s n = Some Await_getTasks \<and> returns getTasks r = Inl e \<longrightarrow>
        tasks (step (Settle n r) s) = tasks s
        \<and> unhandled (step (Settle n r) s) = unhandled s @ [e])
   \<and> (waiting s n = Some Await_getTasks \<and> returns getTasks r = Inr data \<longrightarrow>
        tasks (step (Settle n r) s) = data
        \<and> unhandled (step (Settle n r) s) = unhandled s)"
  by (auto simp: returns_simps json_def split: fetched.splits option.splits)

theorem getTasks_fails_iff_witness:
  "(\<exists>e. returns getTasks Failed = Inl e)
   \<and> (\<exists>e. returns getTasks (Responded \<lparr>status = 200, body_json = None\<rparr>) = Inl e)
   \<and> waiting (step Mount init) 0 = Some Await_getTasks
   \<and> returns getTasks (Responded \<lparr>status = 200, body_json = None\<rparr>) = Inl SyntaxError
   \<and> tasks (step (Settle 0 (Responded \<lparr>status = 200, body_json = None\<rparr>)) (step Mount init)) = JArr []
   \<and> unhandled (step (Settle 0 (Responded \<lparr>status = 200, body_json = None\<rparr>)) (step Mount init))
       = [SyntaxError]
   \<and> returns getTasks (Responded \<lparr>status = 200, body_json = Some (JArr [JNull])\<rparr>) = Inr (JArr [JNull])
   \<and> tasks (step (Settle 0 (Responded \<lparr>status = 200, body_json = Some (JArr [JNull])\<rparr>)) (step Mount init))
       = JArr [JNull]"
  using
    getTasks_fails_iff [of Failed "step Mount init" 0 NetworkError JNull]
    getTasks_fails_iff [of "Responded \<lparr>status = 200, body_json = None\<rparr>" "step Mount init" 0
      SyntaxError JNull]
    getTasks_fails_iff [of "Responded \<lparr>status = 200, body_json = Some (JArr [JNull])\<rparr>"
      "step Mount init" 0 SyntaxError "JArr [JNull]"]
  by (simp add: init_def fetchTasks_def await_def returns_simps json_def)

subsection \<open>The row view\<close>

text \<open>
  Claim C6. \<open>TaskItem\<close> is a function of the task and the two callbacks. For a task
  whose \<open>completed\<close> is the boolean \<open>b\<close>, the row renders, the title has the
  strikethrough class if and only if \<open>b\<close> is true, the checkbox invokes \<open>onToggle\<close> on
  the task's \<open>id\<close> and the delete button invokes \<open>onDelete\<close> on it.
\<close>

theorem TaskItem_renders:
  assumes "get_prop task (js ''completed'') = Inr (JBool b)"
  shows "\<exists>i t row. get_prop task (js ''id'') = Inr i \<and> get_prop task (js ''title'') = Inr t
           \<and> TaskItem task onToggle onDelete = Inr row
           \<and> (span_className row = ''line-through text-gray-500'') = b
           \<and> row = \<lparr>checkbox_checked = JBool b,
                     checkbox_onChange = onToggle i,
                     span_className = (if b then ''line-through text-gray-500'' else ''''),
                     span_children = t,
                     button_onClick = onDelete i\<rparr>"
  using assms by (cases task) (simp_all add: TaskItem_def)

theorem TaskItem_renders_witness:
  "get_prop (JObj [(js ''id'', JNum 1), (js ''title'', JStr (js ''Buy milk'')), (js ''completed'', JBool True)])
     (js ''completed'') = Inr (JBool True)
   \<and> TaskItem (JObj [(js ''id'', JNum 1), (js ''title'', JStr (js ''Buy milk'')), (js ''completed'', JBool True)])
       Toggle Delete
     = Inr \<lparr>checkbox_checked = JBool True,
            checkbox_onChange = Toggle (JNum 1),
            span_className = ''line-through text-gray-500'',
            span_children = JStr (js ''Buy milk''),
            button_onClick = Delete (JNum 1)\<rparr>"
  using TaskItem_renders
    [of "JObj [(js ''id'', JNum 1), (js ''title'', JStr (js ''Buy milk'')), (js ''completed'', JBool True)]"
        True Toggle Delete]
  by (simp add: js_def)

subsection \<open>Deleting\<close>

text \<open>
  Claim C7. \<open>deleteTask id\<close> sends \<open>DELETE\<close> to the URL of the task, without body or
  headers, and resolves with no value on every response, whatever its status and body.
  So does the controller: on any response to the delete it goes on to the refresh, and
  records no rejection.
\<close>

theorem deleteTask_discards_response:
  "sends (deleteTask id') =
     \<lparr>req_url = TaskUrl API_URL id', req_method = DELETE, req_headers = [], req_body = None\<rparr>
   \<and> returns (deleteTask id') (Responded resp) = Inr ()
   \<and> (waiting s n = Some (Await_deleteTask id') \<longrightarrow>
        step (Settle n (Responded resp)) s =
          s\<lparr>sent := sent s @ [sends getTasks],
            waiting := (waiting s)(n := None, length (sent s) \<mapsto> Await_getTasks)\<rparr>)"
  by (simp add: returns_simps fetchTasks_def await_def) (simp add: deleteTask_def)

theorem deleteTask_discards_response_witness:
  "waiting (step (Delete (JNum 3)) init) 0 = Some (Await_deleteTask (JNum 3))
   \<and> returns (deleteTask (JNum 3)) (Responded \<lparr>status = 404, body_json = None\<rparr>) = Inr ()
   \<and> unhandled (step (Settle 0 (Responded \<lparr>status = 404, body_json = None\<rparr>)) (step (Delete (JNum 3)) init))
       = []
   \<and> sent (step (Settle 0 (Responded \<lparr>status = 404, body_json = None\<rparr>)) (step (Delete (JNum 3)) init))
       = [\<lparr>req_url = TaskUrl API_URL (JNum 3), req_method = DELETE, req_headers = [], req_body = None\<rparr>,
          sends getTasks]"
  using deleteTask_discards_response [of "JNum 3" "\<lparr>status = 404, body_json = None\<rparr>"
      "step (Delete (JNum 3)) init" 0]
  by (simp add: init_def handleDeleteTask_def fetchTasks_def await_def returns_simps)

subsection \<open>Writes to the state\<close>

text \<open>
  Claim C8. Whatever happens to the component, if \<open>tasks\<close> differs afterwards, then
  what happened is that a \<open>fetch\<close> on which \<open>fetchTasks\<close> was suspended settled and
  \<open>getTasks\<close> resolved, and \<open>tasks\<close> is now the value it returned.
\<close>

theorem tasks_written_only_by_refresh:
  assumes "tasks (step e s) \<noteq> tasks s"
  shows "\<exists>n r data. e = Settle n r \<and> waiting s n = Some Await_getTasks
           \<and> returns getTasks r = Inr data \<and> tasks (step e s) = data"
proof (cases e)
  case (Settle n r)
  show ?thesis
  proof (cases "waiting s n")
    case None
    with Settle assms show ?thesis by simp
  next
    case (Some k)
    with Settle assms show ?thesis
      by (cases k) (auto simp del: resume.simps simp add: resume_tasks split: sum.splits)
  qed
qed (use assms in \<open>simp_all add: fetchTasks_def handleAddTask_def handleToggleTask_def
       handleDeleteTask_def await_fields split: if_splits\<close>)

theorem tasks_written_only_by_refresh_witness:
  "tasks (step (Settle 0 (Responded \<lparr>status = 200, body_json = Some (JArr [JNull])\<rparr>)) (step Mount init))
     \<noteq> tasks (step Mount init)
   \<and> (\<exists>n r data.
         Settle 0 (Responded \<lparr>status = 200, body_json = Some (JArr [JNull])\<rparr>) = Settle n r
         \<and> waiting (step Mount init) n = Some Await_getTasks
         \<and> returns getTasks r = Inr data
         \<and> tasks (step (Settle 0 (Responded \<lparr>status = 200, body_json = Some (JArr [JNull])\<rparr>))
               (step Mount init)) = data)"
proof -
  have changed:
    "tasks (step (Settle 0 (Responded \<lparr>status = 200, body_json = Some (JArr [JNull])\<rparr>)) (step Mount init))
       \<noteq> tasks (step Mount init)"
    by (simp add: init_def fetchTasks_def await_def returns_simps json_def)
  from tasks_written_only_by_refresh [OF changed] changed show ?thesis
    by blast
qed

text \<open>
  Claim C9. When the draft does not trim to the empty string, submitting sends the
  \<open>POST\<close> of \<open>createTask\<close> whose body holds the draft itself as the title, untrimmed.
\<close>

theorem title_sent_untrimmed:
  assumes "trim (newTask s) \<noteq> []"
  shows "sent (step Submit s) = sent s @ [sends (createTask (newTask s))]
         \<and> req_method (sends (createTask (newTask s))) = POST
         \<and> req_url (sends (createTask (newTask s))) = TasksUrl API_URL
         \<and> req_body (sends (createTask (newTask s))) = Some (JObj [(js ''title'', JStr (newTask s))])"
  using assms by (simp add: handleAddTask_def await_def createTask_def)

theorem title_sent_untrimmed_witness:
  "trim (newTask (step (Change (js '' a  '')) init)) = js ''a''
   \<and> trim (newTask (step (Change (js '' a  '')) init)) \<noteq> []
   \<and> map req_body (sent (step Submit (step (Change (js '' a  '')) init)))
       = [Some (JObj [(js ''title'', JStr (js '' a  ''))])]"
  using title_sent_untrimmed [of "step (Change (js '' a  '')) init"]
  by (simp add: init_def js_def trim_def is_ws_def)

text \<open>
  Claim C10. If the draft differs after something happened to the component, then either
  the input was changed, or the \<open>createTask\<close> of an add resolved and the draft is now
  empty. Toggling and deleting, and the completion of their calls, leave the draft as it
  was; so does submitting a draft that trims to the empty string.
\<close>

theorem draft_cleared_only_by_add:
  "(newTask (step e s) \<noteq> newTask s \<longrightarrow>
      (\<exists>v. e = Change v)
      \<or> (\<exists>n r title v. e = Settle n r \<and> waiting s n = Some (Await_createTask title)
            \<and> returns (createTask title) r = Inr v \<and> newTask (step e s) = []))
   \<and> newTask (step (Toggle id') s) = newTask s
   \<and> newTask (step (Delete id') s) = newTask s
   \<and> (waiting s n = Some (Await_toggleTask id') \<or> waiting s n = Some (Await_deleteTask id') \<longrightarrow>
        newTask (step (Settle n r) s) = newTask s)
   \<and> (trim (newTask s) = [] \<longrightarrow> newTask (step Submit s) = newTask s)"
proof (intro conjI impI)
  assume ch: "newTask (step e s) \<noteq> newTask s"
  show "(\<exists>v. e = Change v)
      \<or> (\<exists>n r title v. e = Settle n r \<and> waiting s n = Some (Await_createTask title)
            \<and> returns (createTask title) r = Inr v \<and> newTask (step e s) = [])"
  proof (cases e)
    case (Settle n r)
    show ?thesis
    proof (cases "waiting s n")
      case None
      with Settle ch show ?thesis by simp
    next
      case (Some k)
      with Settle ch show ?thesis
        by (cases k) (auto simp del: resume.simps simp add: resume_newTask split: sum.splits)
    qed
  qed (use ch in \<open>simp_all add: fetchTasks_def handleAddTask_def handleToggleTask_def
         handleDeleteTask_def await_fields split: if_splits\<close>)
next
  show "newTask (step (Toggle id') s) = newTask s"
    by (simp add: handleToggleTask_def await_fields)
  show "newTask (step (Delete id') s) = newTask s"
    by (simp add: handleDeleteTask_def await_fields)
next
  assume "waiting s n = Some (Await_toggleTask id') \<or> waiting s n = Some (Await_deleteTask id')"
  then show "newTask (step (Settle n r) s) = newTask s"
    by (auto simp del: resume.simps simp add: resume_newTask)
next
  assume "trim (newTask s) = []"
  then show "newTask (step Submit s) = newTask s"
    by (simp add: handleAddTask_def)
qed

theorem draft_cleared_only_by_add_witness:
  "newTask (step (Settle 0 (Responded \<lparr>status = 201, body_json = Some JNull\<rparr>))
       (run [Change (js ''a''), Submit] init))
     \<noteq> newTask (run [Change (js ''a''), Submit] init)
   \<and> newTask (step (Settle 0 (Responded \<lparr>status = 201, body_json = Some JNull\<rparr>))
       (run [Change (js ''a''), Submit] init)) = []
   \<and> waiting (run [Change (js ''a''), Toggle (JNum 1)] init) 0 = Some (Await_toggleTask (JNum 1))
   \<and> newTask (step (Settle 0 (Responded \<lparr>status = 200, body_json = Some JNull\<rparr>))
       (run [Change (js ''a''), Toggle (JNum 1)] init)) = js ''a''
   \<and> trim (newTask (step (Change (js '' '')) init)) = []
   \<and> newTask (step Submit (step (Change (js '' '')) init)) = js '' ''"
  using
    draft_cleared_only_by_add [of "Settle 0 (Responded \<lparr>status = 201, body_json = Some JNull\<rparr>)"
      "run [Change (js ''a''), Submit] init" "JNum 1" 0 Failed]
    draft_cleared_only_by_add [of Mount "run [Change (js ''a''), Toggle (JNum 1)] init" "JNum 1" 0
      "Responded \<lparr>status = 200, body_json = Some JNull\<rparr>"]
    draft_cleared_only_by_add [of Mount "step (Change (js '' '')) init" "JNum 1" 0 Failed]
  by (simp add: init_def handleAddTask_def handleToggleTask_def fetchTasks_def await_def
        returns_simps json_def js_def trim_def is_ws_def)

end
